theory Spec2Isabelle
  imports Main "HOL-Library.Word" "HOL-Library.Sublist"
begin

section \<open>JavaScript strings\<close>

text \<open>
  A JavaScript string is a sequence of UTF-16 code units. The front end is written in
  TypeScript, so every string of the model is a list of 16-bit words; \<open>js\<close> embeds an
  ASCII literal.
\<close>

type_synonym code_unit = "16 word"
type_synonym js_string = "code_unit list"

definition js :: "string \<Rightarrow> js_string" where
  "js s = map of_char s"

definition LF :: code_unit where
  "LF = 0x0A"

definition HASH :: code_unit where
  "HASH = 0x23"

text \<open>
  The code units that \<open>String.prototype.trim\<close> removes and that the regular expression
  class \<open>\s\<close> matches: ECMAScript's WhiteSpace (TAB, VT, FF, SP, NBSP, ZWNBSP and the
  Unicode space separators) and LineTerminator (LF, CR, LS, PS).
\<close>

definition is_white_space :: "code_unit \<Rightarrow> bool" where
  "is_white_space c \<longleftrightarrow>
     c = 0x09 \<or> c = 0x0A \<or> c = 0x0B \<or> c = 0x0C \<or> c = 0x0D \<or> c = 0x20 \<or>
     c = 0xA0 \<or> c = 0x1680 \<or> (0x2000 \<le> c \<and> c \<le> 0x200A) \<or>
     c = 0x2028 \<or> c = 0x2029 \<or> c = 0x202F \<or> c = 0x205F \<or> c = 0x3000 \<or> c = 0xFEFF"

text \<open>\<open>s.trim()\<close>\<close>

definition trim :: "js_string \<Rightarrow> js_string" where
  "trim s = rev (dropWhile is_white_space (rev (dropWhile is_white_space s)))"

text \<open>Truthiness of a string (\<open>!s\<close> is true exactly for the empty string).\<close>

definition truthy :: "js_string \<Rightarrow> bool" where
  "truthy s \<longleftrightarrow> s \<noteq> []"

text \<open>Truthiness of \<open>string | null\<close> and \<open>string | undefined\<close>.\<close>

definition truthy_opt :: "js_string option \<Rightarrow> bool" where
  "truthy_opt x = (case x of None \<Rightarrow> False | Some s \<Rightarrow> truthy s)"

text \<open>
  \<open>s.split(sep)\<close> and \<open>lines.join(sep)\<close> for a separator of one code unit. The split of
  a string is never empty: the empty string splits into one empty line.
\<close>

fun split_unit :: "code_unit \<Rightarrow> js_string \<Rightarrow> js_string list" where
  "split_unit sep [] = [[]]"
| "split_unit sep (c # cs) =
     (if c = sep then [] # split_unit sep cs
      else (case split_unit sep cs of [] \<Rightarrow> [[c]] | l # ls \<Rightarrow> (c # l) # ls))"

fun join_unit :: "code_unit \<Rightarrow> js_string list \<Rightarrow> js_string" where
  "join_unit sep [] = []"
| "join_unit sep [l] = l"
| "join_unit sep (l # ls) = l @ sep # join_unit sep ls"

text \<open>\<open>s.includes(t)\<close>\<close>

definition js_includes :: "js_string \<Rightarrow> js_string \<Rightarrow> bool" where
  "js_includes s t \<longleftrightarrow> sublist t s"

section \<open>Data model (\<open>frontend/src/api/types.ts\<close>)\<close>

datatype ToolName = calculator | web_search | amap_weather

text \<open>A value of TypeScript's \<open>unknown\<close>, as JSON carries it.\<close>

datatype json =
    JNull
  | JBool bool
  | JNumber int
  | JString js_string
  | JArray "json list"
  | JObject "(js_string \<times> json) list"

record ToolConfig =
  name :: ToolName
  description :: js_string
  parameters :: "(js_string \<times> json) list"

record AgentCreateRequest =
  user_requirement :: js_string
  is_composite :: "bool option"

record SubAgentSummary =
  agent_id :: "js_string option"
  name :: js_string
  description :: js_string
  tools :: "ToolName list"

record AgentDefinition =
  agent_id :: js_string
  name :: js_string
  description :: js_string
  prompt :: js_string
  tools :: "ToolConfig list"
  created_at :: js_string
  is_composite :: bool
  sub_agents :: "SubAgentSummary list"

record AgentSummary =
  agent_id :: js_string
  name :: js_string
  description :: js_string
  tools :: "ToolName list"
  created_at :: js_string
  is_composite :: bool

record TaskRequest =
  task :: js_string

record ToolTrace =
  tool :: ToolName
  input :: js_string
  output' :: js_string
  succeeded :: bool
  error :: "js_string option"

record TaskResponse =
  agent_id :: js_string
  task :: js_string
  result :: js_string
  tool_traces :: "ToolTrace list"
  raw_response :: "js_string option"
  created_at :: js_string

section \<open>The API client (\<open>frontend/src/api/agents.ts\<close>)\<close>

text \<open>
  \<open>apiClient\<close> is an HTTP client object of \<open>./client\<close>; the functions hand it a method, a
  path relative to the client's base address and, for \<open>post\<close>, a body. The client is a
  parameter of the model: it maps the request to a rejected promise (\<open>Inl\<close>) or to a
  response whose \<open>data\<close> field is the decoded body.
\<close>

datatype http_method = GET | POST | DELETE

datatype request_body = CreateBody AgentCreateRequest | TaskBody TaskRequest

record http_request =
  request_method :: http_method
  url :: js_string
  body :: "request_body option"

record 'a http_response =
  data :: 'a

type_synonym http_error = js_string

type_synonym 'a api_client = "http_request \<Rightarrow> http_error + 'a http_response"

definition createAgent ::
  "AgentDefinition api_client \<Rightarrow> AgentCreateRequest \<Rightarrow> http_error + AgentDefinition" where
  "createAgent apiClient payload =
     (case apiClient \<lparr>request_method = POST, url = js ''/agents'', body = Some (CreateBody payload)\<rparr> of
        Inl e \<Rightarrow> Inl e
      | Inr r \<Rightarrow> Inr (data r))"

definition fetchAgents ::
  "AgentSummary list api_client \<Rightarrow> http_error + AgentSummary list" where
  "fetchAgents apiClient =
     (case apiClient \<lparr>request_method = GET, url = js ''/agents'', body = None\<rparr> of
        Inl e \<Rightarrow> Inl e
      | Inr r \<Rightarrow> Inr (data r))"

definition fetchAgent ::
  "AgentDefinition api_client \<Rightarrow> js_string \<Rightarrow> http_error + AgentDefinition" where
  "fetchAgent apiClient agentId =
     (case apiClient \<lparr>request_method = GET, url = js ''/agents/'' @ agentId, body = None\<rparr> of
        Inl e \<Rightarrow> Inl e
      | Inr r \<Rightarrow> Inr (data r))"

definition runTask ::
  "TaskResponse api_client \<Rightarrow> js_string \<Rightarrow> TaskRequest \<Rightarrow> http_error + TaskResponse" where
  "runTask apiClient agentId payload =
     (case apiClient \<lparr>request_method = POST, url = js ''/agents/'' @ agentId @ js ''/tasks'',
                       body = Some (TaskBody payload)\<rparr> of
        Inl e \<Rightarrow> Inl e
      | Inr r \<Rightarrow> Inr (data r))"

definition deleteAgent :: "'a api_client \<Rightarrow> js_string \<Rightarrow> http_error + unit" where
  "deleteAgent apiClient agentId =
     (case apiClient \<lparr>request_method = DELETE, url = js ''/agents/'' @ agentId, body = None\<rparr> of
        Inl e \<Rightarrow> Inl e
      | Inr r \<Rightarrow> Inr ())"

text \<open>
  The table of the HTTP surface, written from the specification: each operation with its
  method, its path as a template and its request body.
\<close>

datatype operation =
    CreateAgentOp AgentCreateRequest
  | ListAgentsOp
  | GetAgentOp js_string
  | RunTaskOp js_string TaskRequest
  | DeleteAgentOp js_string

datatype path_segment = Literal string | IdParam

fun table_method :: "operation \<Rightarrow> http_method" where
  "table_method (CreateAgentOp _) = POST"
| "table_method ListAgentsOp = GET"
| "table_method (GetAgentOp _) = GET"
| "table_method (RunTaskOp _ _) = POST"
| "table_method (DeleteAgentOp _) = DELETE"

fun table_path :: "operation \<Rightarrow> path_segment list" where
  "table_path (CreateAgentOp _) = [Literal ''agents'']"
| "table_path ListAgentsOp = [Literal ''agents'']"
| "table_path (GetAgentOp _) = [Literal ''agents'', IdParam]"
| "table_path (RunTaskOp _ _) = [Literal ''agents'', IdParam, Literal ''tasks'']"
| "table_path (DeleteAgentOp _) = [Literal ''agents'', IdParam]"

fun table_body :: "operation \<Rightarrow> request_body option" where
  "table_body (CreateAgentOp p) = Some (CreateBody p)"
| "table_body ListAgentsOp = None"
| "table_body (GetAgentOp _) = None"
| "table_body (RunTaskOp _ p) = Some (TaskBody p)"
| "table_body (DeleteAgentOp _) = None"

fun table_id :: "operation \<Rightarrow> js_string" where
  "table_id (GetAgentOp i) = i"
| "table_id (RunTaskOp i _) = i"
| "table_id (DeleteAgentOp i) = i"
| "table_id _ = []"

fun fill_path :: "js_string \<Rightarrow> path_segment list \<Rightarrow> js_string" where
  "fill_path i [] = []"
| "fill_path i (Literal s # ps) = js ''/'' @ js s @ fill_path i ps"
| "fill_path i (IdParam # ps) = js ''/'' @ i @ fill_path i ps"

definition table_request :: "operation \<Rightarrow> http_request" where
  "table_request op =
     \<lparr>request_method = table_method op, url = fill_path (table_id op) (table_path op),
      body = table_body op\<rparr>"

text \<open>What a call returns from the client's answer: the \<open>data\<close> of the response.\<close>

definition returns_data :: "http_error + 'a http_response \<Rightarrow> http_error + 'a" where
  "returns_data p = (case p of Inl e \<Rightarrow> Inl e | Inr r \<Rightarrow> Inr (data r))"

definition returns_nothing :: "http_error + 'a http_response \<Rightarrow> http_error + unit" where
  "returns_nothing p = (case p of Inl e \<Rightarrow> Inl e | Inr r \<Rightarrow> Inr ())"

section \<open>The forms (\<open>AgentBuilder.tsx\<close>, \<open>TaskRunner.tsx\<close>)\<close>

text \<open>
  \<open>handleSubmit\<close> of \<open>AgentBuilder\<close>: the component state is the requirement text and the
  composite flag; \<open>mutation.mutate\<close> runs \<open>createAgent\<close> on the payload. The result is
  \<open>None\<close> when the handler returns without a request.
\<close>

definition AgentBuilder_payload :: "js_string \<Rightarrow> bool \<Rightarrow> AgentCreateRequest option" where
  "AgentBuilder_payload requirement isComposite =
     (if \<not> truthy (trim requirement) then None
      else Some \<lparr>user_requirement = trim requirement,
                 AgentCreateRequest.is_composite = Some isComposite\<rparr>)"

definition AgentBuilder_handleSubmit ::
  "AgentDefinition api_client \<Rightarrow> js_string \<Rightarrow> bool \<Rightarrow> (http_error + AgentDefinition) option" where
  "AgentBuilder_handleSubmit apiClient requirement isComposite =
     map_option (createAgent apiClient) (AgentBuilder_payload requirement isComposite)"

text \<open>
  \<open>handleSubmit\<close> of \<open>TaskRunner\<close>: \<open>agentId\<close> is \<open>string | null\<close>; the handler stores the
  trimmed task as \<open>lastTask\<close> and \<open>mutation.mutate\<close> runs \<open>runTask\<close> for the agent.
  The result is the new \<open>lastTask\<close> and the request's outcome, if one was made.
\<close>

definition TaskRunner_payload :: "js_string option \<Rightarrow> js_string \<Rightarrow> TaskRequest option" where
  "TaskRunner_payload agentId task_text =
     (if \<not> truthy_opt agentId \<or> \<not> truthy (trim task_text) then None
      else Some \<lparr>TaskRequest.task = trim task_text\<rparr>)"

definition TaskRunner_handleSubmit ::
  "TaskResponse api_client \<Rightarrow> js_string option \<Rightarrow> js_string \<Rightarrow> js_string option \<Rightarrow>
     js_string option \<times> (http_error + TaskResponse) option" where
  "TaskRunner_handleSubmit apiClient agentId task_text lastTask =
     (case TaskRunner_payload agentId task_text of
        None \<Rightarrow> (lastTask, None)
      | Some payload \<Rightarrow>
          (Some (TaskRequest.task payload),
           Some (runTask apiClient (case agentId of Some a \<Rightarrow> a | None \<Rightarrow> []) payload)))"

section \<open>Rendering a result (\<open>TaskResultView\<close>)\<close>

text \<open>
  The regular expression \<open>/^#\s+/\<close>: a \<open>#\<close> at the start of the string followed by one or
  more white-space code units, as many as there are. \<open>h1_test\<close> is \<open>/^#\s+/.test(s)\<close>,
  \<open>h1_replace\<close> is \<open>s.replace(/^#\s+/, "")\<close>.
\<close>

definition h1_test :: "js_string \<Rightarrow> bool" where
  "h1_test s = (case s of h # c # _ \<Rightarrow> h = HASH \<and> is_white_space c | _ \<Rightarrow> False)"

definition h1_replace :: "js_string \<Rightarrow> js_string" where
  "h1_replace s = (if h1_test s then dropWhile is_white_space (tl s) else s)"

text \<open>\<open>lastTask\<close> is the optional property of the view (\<open>None\<close> is \<open>undefined\<close>).\<close>

definition toRenderableMarkdown :: "js_string option \<Rightarrow> js_string \<Rightarrow> js_string" where
  "toRenderableMarkdown lastTask raw =
     (let lines = split_unit LF raw in
      if length lines = 0 then raw
      else
        let first = hd lines;
            stripped = trim (h1_replace first)
        in if truthy_opt lastTask \<and> Some stripped = map_option trim lastTask
           then join_unit LF (lines[0 := js ''> '' @ stripped])
           else if h1_test first
           then join_unit LF (lines[0 := js ''> '' @ stripped])
           else raw)"

text \<open>
  The reading of the first-line rule with the two-character prefix \<open>"# "\<close> taken
  literally: the line is demoted when it starts with a hash and one space, or when, with
  that prefix removed and trimmed, it is the trimmed last task.
\<close>

definition literal_prefix_toRenderableMarkdown ::
  "js_string option \<Rightarrow> js_string \<Rightarrow> js_string" where
  "literal_prefix_toRenderableMarkdown lastTask raw =
     (let first = takeWhile (\<lambda>c. c \<noteq> LF) raw;
          rest = dropWhile (\<lambda>c. c \<noteq> LF) raw;
          stripped = trim (if prefix (js ''# '') first then drop 2 first else first)
      in if Some stripped = map_option trim lastTask \<or> prefix (js ''# '') first
         then js ''> '' @ stripped @ rest
         else raw)"

section \<open>The tool names and the list view\<close>

text \<open>
  Modelled from the spec: the names of the tool registry's fixed set of descriptors
  (section 4.2; the back end's registry of tools is not among the sources). They are
  the three names of the type \<open>ToolName\<close> of \<open>types.ts\<close>, which the README lists as the
  built-in tools.
\<close>

definition tool_registry_names :: "ToolName list" where
  "tool_registry_names = [calculator, web_search, amap_weather]"

text \<open>The string that stands for a tool name in JSON, as \<open>ToolName\<close> spells it.\<close>

fun tool_name_string :: "ToolName \<Rightarrow> js_string" where
  "tool_name_string calculator = js ''calculator''"
| "tool_name_string web_search = js ''web_search''"
| "tool_name_string amap_weather = js ''amap_weather''"

text \<open>
  Modelled from the spec: the list-view projection of an agent definition, which the
  back end's agent store computes for \<open>GET /agents\<close> (the back end is not among the
  sources; the two record types are those of \<open>types.ts\<close>).
\<close>

definition to_summary :: "AgentDefinition \<Rightarrow> AgentSummary" where
  "to_summary d =
     \<lparr>AgentSummary.agent_id = AgentDefinition.agent_id d,
      AgentSummary.name = AgentDefinition.name d,
      AgentSummary.description = AgentDefinition.description d,
      AgentSummary.tools = map ToolConfig.name (AgentDefinition.tools d),
      AgentSummary.created_at = AgentDefinition.created_at d,
      AgentSummary.is_composite = AgentDefinition.is_composite d\<rparr>"

section \<open>The tool registry and the task runner\<close>

text \<open>
  The credentials a tool needs, as the README's section on the back end's \<open>.env\<close> file
  gives them: \<open>web_search\<close> is not available without \<open>GOOGLE_SEARCH_API_KEY\<close> and
  \<open>GOOGLE_SEARCH_CX\<close>, \<open>amap_weather\<close> not without \<open>AMAP_API_KEY\<close>; the calculator
  needs none.
\<close>

datatype credential = OPENAI_API_KEY | GOOGLE_SEARCH_API_KEY | GOOGLE_SEARCH_CX | AMAP_API_KEY

fun required_credentials :: "ToolName \<Rightarrow> credential list" where
  "required_credentials calculator = []"
| "required_credentials web_search = [GOOGLE_SEARCH_API_KEY, GOOGLE_SEARCH_CX]"
| "required_credentials amap_weather = [AMAP_API_KEY]"

text \<open>
  Modelled from the spec: the tool registry's availability gate (section 4.2; the back
  end's \<open>tools.py\<close> is not among the sources). A tool is available when every
  credential it requires is configured.
\<close>

definition tool_available :: "(credential \<Rightarrow> bool) \<Rightarrow> ToolName \<Rightarrow> bool" where
  "tool_available configured t = list_all configured (required_credentials t)"

text \<open>
  Modelled from the spec: \<open>available_tools()\<close> of the registry (section 4.2), the
  registered tools whose availability predicate holds.
\<close>

definition available_tools :: "(credential \<Rightarrow> bool) \<Rightarrow> ToolName list" where
  "available_tools configured = filter (tool_available configured) tool_registry_names"

text \<open>
  Modelled from the spec: a plan of the language model (section 4.4, step 2), a direct
  answer or an ordered list of tool calls, each a tool and its input.
\<close>

datatype plan = DirectAnswer js_string | ToolCalls "(ToolName \<times> js_string) list"

text \<open>
  Modelled from the spec: the language model's answer to a planning request (section
  4.4, step 2), the raw text and the plan it parses to, if it parses.
\<close>

record model_reply =
  raw_text :: js_string
  parsed :: "plan option"

text \<open>
  Modelled from the spec: what the back end reads from its surroundings in every
  component, the configured credentials (section 6) and the clock.
\<close>

record environment =
  configured :: "credential \<Rightarrow> bool"
  clock :: js_string

text \<open>
  Modelled from the spec: the collaborators of the task runner (section 4.4): the
  tools' implementations behind the uniform \<open>invoke\<close> contract of section 4.1 (\<open>Inl\<close>
  is a failure with its message), the planning call and the final synthesis call of the
  language model (\<open>None\<close> when the model is unavailable or the synthesis fails), and
  the heuristic that finds an arithmetic expression in a task.
\<close>

record runner_env = environment +
  capability :: "ToolName \<Rightarrow> js_string \<Rightarrow> js_string + js_string"
  planner :: "AgentDefinition \<Rightarrow> js_string \<Rightarrow> model_reply option"
  synthesizer :: "js_string \<Rightarrow> ToolTrace list \<Rightarrow> js_string option"
  detect_arithmetic :: "js_string \<Rightarrow> js_string option"

text \<open>
  Modelled from the spec: the two tool errors of the taxonomy of section 7, each with
  its human-readable message.
\<close>

datatype tool_error = ToolUnavailableError js_string | ToolExecutionError js_string

text \<open>
  Modelled from the spec: the message a tool error carries into the trace.
\<close>

fun error_message :: "tool_error \<Rightarrow> js_string" where
  "error_message (ToolUnavailableError m) = m"
| "error_message (ToolExecutionError m) = m"

text \<open>
  Modelled from the spec: one tool call of step 3. The tool is resolved through the
  registry restricted to the agent's configured tools; a tool that is not configured
  for the agent or not available fails with \<open>ToolUnavailableError\<close>, a tool that runs
  and fails with \<open>ToolExecutionError\<close>.
\<close>

definition invoke :: "runner_env \<Rightarrow> AgentDefinition \<Rightarrow> ToolName \<Rightarrow> js_string \<Rightarrow> tool_error + js_string" where
  "invoke E agent t inp =
     (if t \<notin> set (map ToolConfig.name (AgentDefinition.tools agent))
      then Inl (ToolUnavailableError (js ''tool is not configured for this agent''))
      else if \<not> tool_available (configured E) t
      then Inl (ToolUnavailableError (js ''tool is not available''))
      else (case capability E t inp of
              Inl m \<Rightarrow> Inl (ToolExecutionError m)
            | Inr out \<Rightarrow> Inr out))"

text \<open>Modelled from the spec: the trace that records the outcome of one invocation.\<close>

definition trace_of :: "ToolName \<Rightarrow> js_string \<Rightarrow> tool_error + js_string \<Rightarrow> ToolTrace" where
  "trace_of t inp outcome =
     (case outcome of
        Inl e \<Rightarrow> \<lparr>tool = t, input = inp, output' = [], succeeded = False,
                  error = Some (error_message e)\<rparr>
      | Inr out \<Rightarrow> \<lparr>tool = t, input = inp, output' = out, succeeded = True, error = None\<rparr>)"

text \<open>
  Modelled from the spec: step 3, the calls executed one after the other in the order
  of the plan, each appending its trace to the traces so far.
\<close>

fun execute_calls ::
  "runner_env \<Rightarrow> AgentDefinition \<Rightarrow> (ToolName \<times> js_string) list \<Rightarrow> ToolTrace list \<Rightarrow> ToolTrace list" where
  "execute_calls E agent [] traces = traces"
| "execute_calls E agent ((t, inp) # calls) traces =
     execute_calls E agent calls (traces @ [trace_of t inp (invoke E agent t inp)])"

text \<open>
  Modelled from the spec: the fallback result of step 4, the tool outputs concatenated,
  or the task when there is none.
\<close>

definition fallback_result :: "js_string \<Rightarrow> ToolTrace list \<Rightarrow> js_string" where
  "fallback_result task_text traces =
     (if traces = [] then task_text else concat (map output' traces))"

text \<open>
  Modelled from the spec: the direct fallback of step 1. An arithmetic expression found
  in the task goes to the calculator directly; otherwise the task is echoed.
\<close>

definition fallback_traces :: "runner_env \<Rightarrow> js_string \<Rightarrow> ToolTrace list" where
  "fallback_traces E task_text =
     (case detect_arithmetic E task_text of
        None \<Rightarrow> []
      | Some e \<Rightarrow>
          [trace_of calculator e
             (case capability E calculator e of
                Inl m \<Rightarrow> Inl (ToolExecutionError m)
              | Inr out \<Rightarrow> Inr out)])"

text \<open>
  Modelled from the spec: \<open>TaskRunner.run\<close>, steps 1 to 5. The result is the traces, the
  final text and the raw response of the model when it gave one.
\<close>

definition TaskRunner_traces :: "runner_env \<Rightarrow> AgentDefinition \<Rightarrow> js_string \<Rightarrow> ToolTrace list" where
  "TaskRunner_traces E agent task_text =
     (if AgentDefinition.tools agent = [] then fallback_traces E task_text
      else (case planner E agent task_text of
              None \<Rightarrow> fallback_traces E task_text
            | Some reply \<Rightarrow>
                (case parsed reply of
                   None \<Rightarrow> fallback_traces E task_text
                 | Some (DirectAnswer a) \<Rightarrow> []
                 | Some (ToolCalls calls) \<Rightarrow> execute_calls E agent calls [])))"

text \<open>
  Modelled from the spec: step 4 of \<open>TaskRunner.run\<close>, the final text: the model's
  direct answer, or the synthesis after the planned calls, or the fallback result when
  the model is unavailable, its plan does not parse or the synthesis fails.
\<close>

definition TaskRunner_result :: "runner_env \<Rightarrow> AgentDefinition \<Rightarrow> js_string \<Rightarrow> js_string" where
  "TaskRunner_result E agent task_text =
     (let traces = TaskRunner_traces E agent task_text in
      if AgentDefinition.tools agent = [] then fallback_result task_text traces
      else (case planner E agent task_text of
              None \<Rightarrow> fallback_result task_text traces
            | Some reply \<Rightarrow>
                (case parsed reply of
                   None \<Rightarrow> fallback_result task_text traces
                 | Some (DirectAnswer a) \<Rightarrow> a
                 | Some (ToolCalls calls) \<Rightarrow>
                     (case synthesizer E task_text traces of
                        None \<Rightarrow> fallback_result task_text traces
                      | Some a \<Rightarrow> a))))"

text \<open>
  Modelled from the spec: step 5 of \<open>TaskRunner.run\<close>, the \<open>TaskResult\<close> assembled from
  the traces, the final text and the raw response of the model when it was asked.
\<close>

definition TaskRunner_run :: "runner_env \<Rightarrow> AgentDefinition \<Rightarrow> js_string \<Rightarrow> TaskResponse" where
  "TaskRunner_run E agent task_text =
     \<lparr>TaskResponse.agent_id = AgentDefinition.agent_id agent,
      TaskResponse.task = task_text,
      result = TaskRunner_result E agent task_text,
      tool_traces = TaskRunner_traces E agent task_text,
      raw_response =
        (if AgentDefinition.tools agent = [] then None
         else map_option raw_text (planner E agent task_text)),
      TaskResponse.created_at = clock E\<rparr>"

text \<open>
  The invocation attempts of a run, in the order they are made: the calculator call of
  the fallback, or the calls of the model's plan.
\<close>

text \<open>
  Modelled from the spec: the tool invocations \<open>TaskRunner.run\<close> attempts, in the order
  it attempts them: the calculator call of the direct fallback (step 1), or the calls of
  the model's plan (steps 2 and 3).
\<close>

definition invocation_attempts ::
  "runner_env \<Rightarrow> AgentDefinition \<Rightarrow> js_string \<Rightarrow> (ToolName \<times> js_string) list" where
  "invocation_attempts E agent task_text =
     (let direct = (case detect_arithmetic E task_text of
                      None \<Rightarrow> [] | Some e \<Rightarrow> [(calculator, e)])
      in if AgentDefinition.tools agent = [] then direct
         else (case planner E agent task_text of
                 None \<Rightarrow> direct
               | Some reply \<Rightarrow>
                   (case parsed reply of
                      None \<Rightarrow> direct
                    | Some (DirectAnswer a) \<Rightarrow> []
                    | Some (ToolCalls calls) \<Rightarrow> calls)))"


section \<open>The agent store and the agent factory\<close>

text \<open>
  The back end's \<open>registry.py\<close> and \<open>agent_factory.py\<close> are not among the sources; the
  store and the factory are written from sections 4.3, 4.5 and 7 of the specification.
\<close>

text \<open>
  Modelled from the spec: the store's errors of the taxonomy of section 7.
\<close>

datatype store_error = NotFoundError js_string | PersistenceError

text \<open>
  Modelled from the spec: the state of the agent store of section 4.5, the in-memory
  collection of definitions, keyed by \<open>agent_id\<close>, and the durable snapshot, absent
  before the first write.
\<close>

record AgentStore =
  agents :: "AgentDefinition list"
  snapshot :: "AgentDefinition list option"

text \<open>
  Modelled from the spec: the write of the full snapshot after a mutation; \<open>write_ok\<close>
  says whether the durable write succeeds.
\<close>

definition persist :: "bool \<Rightarrow> AgentStore \<Rightarrow> AgentStore option" where
  "persist write_ok s = (if write_ok then Some (s\<lparr>snapshot := Some (agents s)\<rparr>) else None)"

text \<open>
  Modelled from the spec: the update of the keyed collection, one entry for each
  \<open>agent_id\<close>.
\<close>

definition put_agent :: "AgentDefinition \<Rightarrow> AgentDefinition list \<Rightarrow> AgentDefinition list" where
  "put_agent d ds =
     (if list_ex (\<lambda>x. AgentDefinition.agent_id x = AgentDefinition.agent_id d) ds
      then map (\<lambda>x. if AgentDefinition.agent_id x = AgentDefinition.agent_id d then d else x) ds
      else ds @ [d])"

text \<open>
  Modelled from the spec: \<open>AgentStore.create\<close>. When the durable write fails the operation
  fails with \<open>PersistenceError\<close> and the store is as before (section 7).
\<close>

definition AgentStore_create ::
  "bool \<Rightarrow> AgentDefinition \<Rightarrow> AgentStore \<Rightarrow> (store_error + AgentDefinition) \<times> AgentStore" where
  "AgentStore_create write_ok d s =
     (case persist write_ok (s\<lparr>agents := put_agent d (agents s)\<rparr>) of
        Some s' \<Rightarrow> (Inr d, s')
      | None \<Rightarrow> (Inl PersistenceError, s))"

text \<open>
  Modelled from the spec: \<open>AgentStore.list\<close>, the summaries of the stored definitions.
\<close>

definition AgentStore_list :: "AgentStore \<Rightarrow> AgentSummary list" where
  "AgentStore_list s = map to_summary (agents s)"

text \<open>
  Modelled from the spec: \<open>AgentStore.get\<close>, which fails with \<open>NotFoundError\<close> for an
  unknown identifier.
\<close>

definition AgentStore_get :: "js_string \<Rightarrow> AgentStore \<Rightarrow> store_error + AgentDefinition" where
  "AgentStore_get i s =
     (case find (\<lambda>d. AgentDefinition.agent_id d = i) (agents s) of
        None \<Rightarrow> Inl (NotFoundError i)
      | Some d \<Rightarrow> Inr d)"

text \<open>
  Modelled from the spec: \<open>AgentStore.delete\<close>, which fails with \<open>NotFoundError\<close> for an
  unknown identifier and with \<open>PersistenceError\<close>, the store as before, when the durable
  write fails.
\<close>

definition AgentStore_delete ::
  "bool \<Rightarrow> js_string \<Rightarrow> AgentStore \<Rightarrow> (store_error + unit) \<times> AgentStore" where
  "AgentStore_delete write_ok i s =
     (if list_ex (\<lambda>d. AgentDefinition.agent_id d = i) (agents s)
      then (case persist write_ok
                   (s\<lparr>agents := filter (\<lambda>d. AgentDefinition.agent_id d \<noteq> i) (agents s)\<rparr>) of
              Some s' \<Rightarrow> (Inr (), s')
            | None \<Rightarrow> (Inl PersistenceError, s))
      else (Inl (NotFoundError i), s))"

text \<open>
  Modelled from the spec: the start of the process, which loads the durable snapshot or
  starts empty when there is none.
\<close>

definition AgentStore_load :: "AgentDefinition list option \<Rightarrow> AgentStore" where
  "AgentStore_load durable =
     \<lparr>agents = (case durable of None \<Rightarrow> [] | Some ds \<Rightarrow> ds), snapshot = durable\<rparr>"

text \<open>
  Modelled from the spec: the tool descriptor of section 3.
\<close>

record ToolDescriptor =
  name :: ToolName
  description :: js_string
  parameter_schema :: "(js_string \<times> json) list"

text \<open>
  Modelled from the spec: the collaborators of the agent factory (section 4.3): the
  registry's descriptors, the language model's three answers (each absent when the
  model is unavailable or its answer does not parse), the deterministic fallbacks, the
  fresh identifier and whether the durable write succeeds.
\<close>

record factory_env = environment +
  descriptor :: "ToolName \<Rightarrow> ToolDescriptor"
  select_tools :: "js_string \<Rightarrow> ToolDescriptor list \<Rightarrow> js_string list option"
  keyword_cues :: "js_string \<Rightarrow> ToolName list"
  synthesize_metadata ::
    "js_string \<Rightarrow> ToolConfig list \<Rightarrow> (js_string \<times> js_string \<times> js_string) option"
  template_metadata :: "js_string \<Rightarrow> ToolConfig list \<Rightarrow> js_string \<times> js_string \<times> js_string"
  decompose :: "js_string \<Rightarrow> js_string list option"
  fresh_id :: js_string
  write_succeeds :: bool

text \<open>
  Modelled from the spec: the reading of a tool name the model suggests; a name the
  registry does not know reads as nothing.
\<close>

definition parse_tool_name :: "js_string \<Rightarrow> ToolName option" where
  "parse_tool_name s = find (\<lambda>t. tool_name_string t = s) tool_registry_names"

text \<open>
  Modelled from the spec: the tool configuration selected from a descriptor.
\<close>

definition config_of :: "ToolDescriptor \<Rightarrow> ToolConfig" where
  "config_of td =
     \<lparr>ToolConfig.name = ToolDescriptor.name td,
      ToolConfig.description = ToolDescriptor.description td,
      parameters = parameter_schema td\<rparr>"

text \<open>
  Modelled from the spec: step 1, tool selection. The model's suggestion is restricted
  to the available tools, unknown and unavailable names dropped; without a suggestion
  the keyword cues of the requirement decide.
\<close>

definition select_tool_configs :: "factory_env \<Rightarrow> js_string \<Rightarrow> ToolConfig list" where
  "select_tool_configs F requirement =
     (let avail = available_tools (configured F);
          names = (case select_tools F requirement (map (descriptor F) avail) of
                     Some suggested \<Rightarrow> List.map_filter parse_tool_name suggested
                   | None \<Rightarrow> keyword_cues F requirement)
      in map (\<lambda>t. config_of (descriptor F t)) (remdups (filter (\<lambda>t. t \<in> set avail) names)))"

text \<open>Modelled from the spec: step 2, the metadata from the model or from the template.\<close>

definition agent_metadata ::
  "factory_env \<Rightarrow> js_string \<Rightarrow> ToolConfig list \<Rightarrow> js_string \<times> js_string \<times> js_string" where
  "agent_metadata F requirement configs =
     (case synthesize_metadata F requirement configs of
        Some m \<Rightarrow> m
      | None \<Rightarrow> template_metadata F requirement configs)"

text \<open>
  Modelled from the spec: step 3, the decomposition of a composite agent. Each
  sub-requirement goes through steps 1 and 2 and gives a summary without an identifier.
\<close>

definition sub_agent_summary :: "factory_env \<Rightarrow> js_string \<Rightarrow> SubAgentSummary" where
  "sub_agent_summary F sub_requirement =
     (let configs = select_tool_configs F sub_requirement;
          m = agent_metadata F sub_requirement configs
      in \<lparr>SubAgentSummary.agent_id = None,
          SubAgentSummary.name = fst m,
          SubAgentSummary.description = fst (snd m),
          SubAgentSummary.tools = map ToolConfig.name configs\<rparr>)"

text \<open>
  Modelled from the spec: step 3 as a whole, taken only for a composite agent.
\<close>

definition decomposition :: "factory_env \<Rightarrow> js_string \<Rightarrow> bool \<Rightarrow> SubAgentSummary list" where
  "decomposition F requirement composite =
     (if composite
      then (case decompose F requirement of
              None \<Rightarrow> []
            | Some subs \<Rightarrow> map (sub_agent_summary F) subs)
      else [])"

text \<open>Modelled from the spec: step 4, the definition and its persistence.\<close>

definition build_definition :: "factory_env \<Rightarrow> js_string \<Rightarrow> bool \<Rightarrow> AgentDefinition" where
  "build_definition F requirement composite =
     (let configs = select_tool_configs F requirement;
          m = agent_metadata F requirement configs
      in \<lparr>AgentDefinition.agent_id = fresh_id F,
          AgentDefinition.name = fst m,
          AgentDefinition.description = fst (snd m),
          prompt = snd (snd m),
          AgentDefinition.tools = configs,
          AgentDefinition.created_at = clock F,
          AgentDefinition.is_composite = composite,
          sub_agents = decomposition F requirement composite\<rparr>)"

text \<open>
  Modelled from the spec: \<open>AgentFactory.create\<close>, which builds the definition and
  persists it through \<open>AgentStore.create\<close>; it fails only when persistence fails.
\<close>

definition AgentFactory_create ::
  "factory_env \<Rightarrow> js_string \<Rightarrow> bool \<Rightarrow> AgentStore \<Rightarrow> (store_error + AgentDefinition) \<times> AgentStore" where
  "AgentFactory_create F requirement composite s =
     AgentStore_create (write_succeeds F) (build_definition F requirement composite) s"

text \<open>
  The invariant of the data model (section 3): sub-agents only in a composite agent.
\<close>

definition sub_agents_ok :: "AgentDefinition \<Rightarrow> bool" where
  "sub_agents_ok d = (if AgentDefinition.is_composite d then True else sub_agents d = [])"

text \<open>
  The invariant for a store: it holds of every definition in the collection and of
  every definition in the snapshot.
\<close>

definition store_ok :: "AgentStore \<Rightarrow> bool" where
  "store_ok s \<longleftrightarrow>
     list_all sub_agents_ok (agents s) \<and>
     (case snapshot s of None \<Rightarrow> True | Some ds \<Rightarrow> list_all sub_agents_ok ds)"

text \<open>
  Modelled from the spec: the requests that reach the store (section 6), each with what
  its surroundings contribute to it, and a restart of the process.
\<close>

datatype request =
    CreateRequest factory_env js_string bool
  | DeleteRequest bool js_string
  | GetRequest js_string
  | ListRequest
  | Restart

text \<open>
  Modelled from the spec: the effect of one request on the store. Reads leave it as it
  is.
\<close>

fun serve :: "request \<Rightarrow> AgentStore \<Rightarrow> AgentStore" where
  "serve (CreateRequest F requirement composite) s = snd (AgentFactory_create F requirement composite s)"
| "serve (DeleteRequest write_ok i) s = snd (AgentStore_delete write_ok i s)"
| "serve (GetRequest i) s = s"
| "serve ListRequest s = s"
| "serve Restart s = AgentStore_load (snapshot s)"

text \<open>
  Requests served one after the other.
\<close>

fun serve_all :: "request list \<Rightarrow> AgentStore \<Rightarrow> AgentStore" where
  "serve_all [] s = s"
| "serve_all (r # rs) s = serve_all rs (serve r s)"


section \<open>Example inputs\<close>

text \<open>Concrete agents, environments and requests, on which the theorems are instantiated.\<close>

definition example_config :: "ToolName \<Rightarrow> ToolConfig" where
  "example_config t =
     \<lparr>ToolConfig.name = t, ToolConfig.description = tool_name_string t, parameters = []\<rparr>"

definition example_agent :: AgentDefinition where
  "example_agent =
     \<lparr>AgentDefinition.agent_id = js ''a1'', AgentDefinition.name = js ''helper'',
      AgentDefinition.description = js ''sums and news'', prompt = js ''You are a helper'',
      AgentDefinition.tools = [example_config calculator, example_config web_search],
      AgentDefinition.created_at = js ''2024-01-01'', AgentDefinition.is_composite = False,
      sub_agents = []\<rparr>"

definition example_runner :: runner_env where
  "example_runner =
     \<lparr>configured = (\<lambda>c. False), clock = js ''2024-01-02'',
      capability = (\<lambda>t inp. if t = calculator then Inr (js ''2'') else Inl (js ''down'')),
      planner = (\<lambda>a t. Some \<lparr>raw_text = js ''plan'',
                    parsed = Some (ToolCalls [(calculator, js ''1+1''), (web_search, js ''news'')])\<rparr>),
      synthesizer = (\<lambda>t trs. None),
      detect_arithmetic = (\<lambda>t. None)\<rparr>"


definition example_descriptor :: "ToolName \<Rightarrow> ToolDescriptor" where
  "example_descriptor t =
     \<lparr>ToolDescriptor.name = t, ToolDescriptor.description = tool_name_string t,
      parameter_schema = []\<rparr>"

definition example_factory :: factory_env where
  "example_factory =
     \<lparr>configured = (\<lambda>c. False), clock = js ''2024-01-01'',
      descriptor = example_descriptor,
      select_tools = (\<lambda>r ds. Some [js ''calculator'', js ''telescope'', js ''web_search'']),
      keyword_cues = (\<lambda>r. []),
      synthesize_metadata = (\<lambda>r cs. None),
      template_metadata = (\<lambda>r cs. (r, r, js ''You are an agent'')),
      decompose = (\<lambda>r. Some [js ''add'', js ''multiply'']),
      fresh_id = js ''a1'',
      write_succeeds = True\<rparr>"

definition example_requests :: "request list" where
  "example_requests =
     [CreateRequest example_factory (js ''sums'') True,
      CreateRequest (example_factory\<lparr>fresh_id := js ''a2''\<rparr>) (js ''sums'') False,
      DeleteRequest True (js ''a3''),
      Restart]"




section \<open>Strings: splitting, joining and trimming\<close>

lemma split_unit_not_Nil: "split_unit sep s \<noteq> []"
  by (induction s) (auto split: list.splits)

lemma hd_split_unit: "hd (split_unit sep s) = takeWhile (\<lambda>c. c \<noteq> sep) s"
proof (induction s)
  case Nil
  show ?case by simp
next
  case (Cons c cs)
  with split_unit_not_Nil [of sep cs] show ?case
    by (cases "split_unit sep cs") auto
qed

lemma join_split_unit: "join_unit sep (split_unit sep s) = s"
proof (induction s)
  case Nil
  show ?case by simp
next
  case (Cons c cs)
  show ?case
  proof (cases "c = sep")
    case True
    with Cons split_unit_not_Nil [of sep cs] show ?thesis
      by (cases "split_unit sep cs") auto
  next
    case False
    with Cons split_unit_not_Nil [of sep cs] show ?thesis
      by (cases "split_unit sep cs"; cases "tl (split_unit sep cs)") auto
  qed
qed

lemma join_replace_first:
  "join_unit sep (x # tl (split_unit sep s)) = x @ dropWhile (\<lambda>c. c \<noteq> sep) s"
proof (induction s)
  case Nil
  show ?case by simp
next
  case (Cons c cs)
  show ?case
  proof (cases "c = sep")
    case True
    with split_unit_not_Nil [of sep cs] join_split_unit [of sep cs] show ?thesis
      by (cases "split_unit sep cs") auto
  next
    case False
    with Cons split_unit_not_Nil [of sep cs] show ?thesis
      by (cases "split_unit sep cs") auto
  qed
qed

lemma update_first: "xs \<noteq> [] \<Longrightarrow> xs[0 := x] = x # tl xs"
  by (cases xs) auto

lemma dropWhile_all_iff: "(\<forall>x\<in>set (dropWhile P xs). P x) \<longleftrightarrow> dropWhile P xs = []"
proof
  assume a: "\<forall>x\<in>set (dropWhile P xs). P x"
  show "dropWhile P xs = []"
  proof (rule ccontr)
    assume n: "dropWhile P xs \<noteq> []"
    then have "\<not> P (hd (dropWhile P xs))" by (rule hd_dropWhile)
    moreover from n have "hd (dropWhile P xs) \<in> set (dropWhile P xs)" by simp
    ultimately show False using a by blast
  qed
qed (auto dest: set_dropWhileD)

lemma trim_Nil_iff: "trim s = [] \<longleftrightarrow> list_all is_white_space s"
proof -
  have "trim s = [] \<longleftrightarrow> (\<forall>x\<in>set (dropWhile is_white_space s). is_white_space x)"
    by (simp add: trim_def dropWhile_eq_Nil_conv)
  also have "\<dots> \<longleftrightarrow> dropWhile is_white_space s = []"
    by (rule dropWhile_all_iff)
  also have "\<dots> \<longleftrightarrow> list_all is_white_space s"
    by (simp add: dropWhile_eq_Nil_conv list_all_iff)
  finally show ?thesis .
qed

lemma last_dropWhile: "dropWhile P xs \<noteq> [] \<Longrightarrow> last (dropWhile P xs) = last xs"
  by (induction xs) (auto split: if_splits)

lemma trim_ends:
  assumes "trim s \<noteq> []"
  shows "\<not> is_white_space (hd (trim s))" and "\<not> is_white_space (last (trim s))"
proof -
  let ?a = "dropWhile is_white_space s"
  let ?b = "dropWhile is_white_space (rev ?a)"
  from assms have b: "?b \<noteq> []" by (simp add: trim_def)
  then have a: "?a \<noteq> []" by (cases "?a") simp_all
  from b have "\<not> is_white_space (hd ?b)" by (rule hd_dropWhile)
  with b show "\<not> is_white_space (last (trim s))"
    by (simp add: trim_def last_rev)
  from b have "last ?b = last (rev ?a)" by (rule last_dropWhile)
  with a have "last ?b = hd ?a" by (simp add: last_rev)
  moreover from a have "\<not> is_white_space (hd ?a)" by (rule hd_dropWhile)
  ultimately show "\<not> is_white_space (hd (trim s))"
    using b by (simp add: trim_def hd_rev)
qed

lemma dropWhile_hd_id: "xs = [] \<or> \<not> P (hd xs) \<Longrightarrow> dropWhile P xs = xs"
  by (cases xs) auto

lemma trim_idem: "trim (trim s) = trim s"
proof (cases "trim s = []")
  case True
  have "trim [] = []" by (simp add: trim_def)
  with True show ?thesis by simp
next
  case False
  then have h: "\<not> is_white_space (hd (trim s))" and l: "\<not> is_white_space (last (trim s))"
    by (rule trim_ends)+
  from h have 1: "dropWhile is_white_space (trim s) = trim s"
    by (simp add: dropWhile_hd_id)
  from False l have 2: "dropWhile is_white_space (rev (trim s)) = rev (trim s)"
    by (simp add: dropWhile_hd_id hd_rev)
  show ?thesis
    unfolding trim_def [of "trim s"] by (simp only: 1 2 rev_rev_ident)
qed

lemma trim_not_blank: "trim s \<noteq> [] \<Longrightarrow> \<not> list_all is_white_space (trim s)"
  using trim_idem [of s] trim_Nil_iff [of "trim s"] by simp

section \<open>The API client\<close>

text \<open>
  Claim C1. Each function of the API client hands the client exactly the request of the
  specification's table and returns the \<open>data\<close> of the answer: \<open>createAgent\<close> is
  POST /agents with the payload \<open>{user_requirement, is_composite?}\<close> as body and returns
  an agent definition; \<open>fetchAgents\<close> is GET /agents and returns a list of summaries;
  \<open>fetchAgent\<close> is GET /agents/{id} and returns a definition; \<open>runTask\<close> is
  POST /agents/{id}/tasks with the body \<open>{task}\<close> and returns a task result;
  \<open>deleteAgent\<close> is DELETE /agents/{id} and returns nothing. The paths are those the
  functions hand to the client, relative to its base address (the README serves the API
  under \<open>/api\<close>). The last five conjuncts spell the table's requests out.
\<close>

theorem api_client_follows_table:
  "createAgent c1 p = returns_data (c1 (table_request (CreateAgentOp p))) \<and>
   fetchAgents c2 = returns_data (c2 (table_request ListAgentsOp)) \<and>
   fetchAgent c1 i = returns_data (c1 (table_request (GetAgentOp i))) \<and>
   runTask c3 i t = returns_data (c3 (table_request (RunTaskOp i t))) \<and>
   deleteAgent c4 i = returns_nothing (c4 (table_request (DeleteAgentOp i))) \<and>
   table_request (CreateAgentOp p) =
     \<lparr>request_method = POST, url = js ''/agents'', body = Some (CreateBody p)\<rparr> \<and>
   table_request ListAgentsOp = \<lparr>request_method = GET, url = js ''/agents'', body = None\<rparr> \<and>
   table_request (GetAgentOp i) =
     \<lparr>request_method = GET, url = js ''/agents/'' @ i, body = None\<rparr> \<and>
   table_request (RunTaskOp i t) =
     \<lparr>request_method = POST, url = js ''/agents/'' @ i @ js ''/tasks'', body = Some (TaskBody t)\<rparr> \<and>
   table_request (DeleteAgentOp i) =
     \<lparr>request_method = DELETE, url = js ''/agents/'' @ i, body = None\<rparr>"
  by (simp add: createAgent_def fetchAgents_def fetchAgent_def runTask_def deleteAgent_def
      returns_data_def returns_nothing_def table_request_def js_def)

section \<open>The forms\<close>

lemma AgentBuilder_payload_Some:
  "AgentBuilder_payload requirement isComposite = Some p \<Longrightarrow>
     trim requirement \<noteq> [] \<and> user_requirement p = trim requirement \<and>
     AgentCreateRequest.is_composite p = Some isComposite"
  by (auto simp: AgentBuilder_payload_def truthy_def split: if_splits)

lemma TaskRunner_payload_Some:
  "TaskRunner_payload agentId task_text = Some p \<Longrightarrow>
     (\<exists>a. agentId = Some a \<and> a \<noteq> []) \<and> trim task_text \<noteq> [] \<and>
     TaskRequest.task p = trim task_text"
  by (cases agentId)
     (auto simp: TaskRunner_payload_def truthy_def truthy_opt_def split: if_splits)

text \<open>
  Claim C9. \<open>AgentBuilder\<close>'s submit handler makes a \<open>createAgent\<close> request exactly when
  the trimmed requirement is not empty, and the request carries the trimmed requirement;
  \<open>TaskRunner\<close>'s submit handler makes a \<open>runTask\<close> request exactly when an agent id is
  set (not null and not the empty string) and the trimmed task is not empty, and the
  request carries the trimmed task, which also becomes \<open>lastTask\<close>. A payload that is
  sent is never blank: it holds a code unit that is not white space.
\<close>

theorem forms_send_trimmed_nonblank:
  "AgentBuilder_handleSubmit c requirement isComposite =
     (if trim requirement = [] then None
      else Some (createAgent c \<lparr>user_requirement = trim requirement,
                                AgentCreateRequest.is_composite = Some isComposite\<rparr>)) \<and>
   TaskRunner_handleSubmit c' agentId task_text lastTask =
     (if agentId = None \<or> agentId = Some [] \<or> trim task_text = [] then (lastTask, None)
      else (Some (trim task_text),
            Some (runTask c' (the agentId) \<lparr>TaskRequest.task = trim task_text\<rparr>))) \<and>
   (\<forall>p. AgentBuilder_payload requirement isComposite = Some p \<longrightarrow>
        trim requirement \<noteq> [] \<and> user_requirement p = trim requirement \<and>
        \<not> list_all is_white_space (user_requirement p)) \<and>
   (\<forall>p. TaskRunner_payload agentId task_text = Some p \<longrightarrow>
        (\<exists>a. agentId = Some a \<and> a \<noteq> []) \<and> trim task_text \<noteq> [] \<and>
        TaskRequest.task p = trim task_text \<and>
        \<not> list_all is_white_space (TaskRequest.task p))"
proof (intro conjI allI impI)
  show "AgentBuilder_handleSubmit c requirement isComposite =
     (if trim requirement = [] then None
      else Some (createAgent c \<lparr>user_requirement = trim requirement,
                                AgentCreateRequest.is_composite = Some isComposite\<rparr>))"
    by (simp add: AgentBuilder_handleSubmit_def AgentBuilder_payload_def truthy_def)
  show "TaskRunner_handleSubmit c' agentId task_text lastTask =
     (if agentId = None \<or> agentId = Some [] \<or> trim task_text = [] then (lastTask, None)
      else (Some (trim task_text),
            Some (runTask c' (the agentId) \<lparr>TaskRequest.task = trim task_text\<rparr>)))"
    by (cases agentId)
       (simp_all add: TaskRunner_handleSubmit_def TaskRunner_payload_def truthy_def
          truthy_opt_def)
next
  fix p
  assume "AgentBuilder_payload requirement isComposite = Some p"
  then have *: "trim requirement \<noteq> []" "user_requirement p = trim requirement"
    by (simp_all add: AgentBuilder_payload_Some)
  show "trim requirement \<noteq> []" by (rule *)
  show "user_requirement p = trim requirement" by (rule *)
  from * show "\<not> list_all is_white_space (user_requirement p)"
    by (simp add: trim_not_blank)
next
  fix p
  assume a: "TaskRunner_payload agentId task_text = Some p"
  then have *: "trim task_text \<noteq> []" "TaskRequest.task p = trim task_text"
    by (simp_all add: TaskRunner_payload_Some)
  from a show "\<exists>a. agentId = Some a \<and> a \<noteq> []"
    by (simp add: TaskRunner_payload_Some)
  show "trim task_text \<noteq> []" by (rule *)
  show "TaskRequest.task p = trim task_text" by (rule *)
  from * show "\<not> list_all is_white_space (TaskRequest.task p)"
    by (simp add: trim_not_blank)
qed

theorem forms_send_trimmed_nonblank_witness:
  "AgentBuilder_payload (js ''  calc '') True =
     Some \<lparr>user_requirement = js ''calc'', AgentCreateRequest.is_composite = Some True\<rparr> \<and>
   TaskRunner_payload (Some (js ''a1'')) (js '' 1+1 '') = Some \<lparr>TaskRequest.task = js ''1+1''\<rparr> \<and>
   trim (js ''  calc '') \<noteq> [] \<and> \<not> list_all is_white_space (js ''calc'') \<and>
   trim (js '' 1+1 '') \<noteq> [] \<and> \<not> list_all is_white_space (js ''1+1'') \<and>
   AgentBuilder_handleSubmit (\<lambda>r. Inl (url r)) (js ''   '') True = None \<and>
   AgentBuilder_handleSubmit (\<lambda>r. Inl (url r)) (js ''  calc '') True = Some (Inl (js ''/agents'')) \<and>
   TaskRunner_handleSubmit (\<lambda>r. Inl (url r)) (Some (js ''a1'')) (js '' 1+1 '') None =
     (Some (js ''1+1''), Some (Inl (js ''/agents/a1/tasks''))) \<and>
   TaskRunner_handleSubmit (\<lambda>r. Inl (url r)) None (js '' 1+1 '') None = (None, None)"
proof -
  have p1: "AgentBuilder_payload (js ''  calc '') True =
     Some \<lparr>user_requirement = js ''calc'', AgentCreateRequest.is_composite = Some True\<rparr>"
    by (simp add: AgentBuilder_payload_def truthy_def trim_def is_white_space_def js_def)
  have p2: "TaskRunner_payload (Some (js ''a1'')) (js '' 1+1 '') =
     Some \<lparr>TaskRequest.task = js ''1+1''\<rparr>"
    by (simp add: TaskRunner_payload_def truthy_def truthy_opt_def trim_def
        is_white_space_def js_def)
  have t1: "trim (js ''  calc '') = js ''calc''" and t2: "trim (js '' 1+1 '') = js ''1+1''"
    and t3: "trim (js ''   '') = []"
    by (simp_all add: trim_def is_white_space_def js_def)
  have j: "js ''calc'' \<noteq> []" "js ''1+1'' \<noteq> []" "js ''a1'' \<noteq> []"
    by (simp_all add: js_def)
  note a = forms_send_trimmed_nonblank [of "\<lambda>r. Inl (url r)" "js ''  calc ''" True
      "\<lambda>r. Inl (url r)" "Some (js ''a1'')" "js '' 1+1 ''" None]
  note b = forms_send_trimmed_nonblank [of "\<lambda>r. Inl (url r)" "js ''   ''" True
      "\<lambda>r. Inl (url r)" None "js '' 1+1 ''" None]
  from a b p1 p2 show ?thesis
    by (simp add: t1 t2 t3 j createAgent_def runTask_def) (simp add: js_def)
qed

section \<open>Rendering a result\<close>

lemma h1_test_iff: "h1_test s \<longleftrightarrow> (\<exists>c r. s = HASH # c # r \<and> is_white_space c)"
  by (auto simp: h1_test_def split: list.splits)

text \<open>
  Claim C10, as the code has it. \<open>toRenderableMarkdown\<close> returns \<open>raw\<close> with only its
  first line (the text before the first line feed) replaced by \<open>"> "\<close> and the stripped
  line, where the stripped line is the first line without a leading \<open>#\<close> and the run of
  white space after it, trimmed. It does so when \<open>lastTask\<close> is present and not empty and
  the stripped line is the trimmed \<open>lastTask\<close>, or when the first line starts with \<open>#\<close>
  followed by at least one white-space code unit (a space, a tab or any other); in every
  other case it returns \<open>raw\<close> unchanged. So a first-line heading is demoted whether or
  not it restates the task, and a first line that is the task is demoted without being
  a heading.
\<close>

theorem toRenderableMarkdown_demotes_first_line:
  "toRenderableMarkdown lastTask raw =
     (let first = takeWhile (\<lambda>c. c \<noteq> LF) raw;
          rest = dropWhile (\<lambda>c. c \<noteq> LF) raw;
          stripped = trim (if h1_test first then dropWhile is_white_space (tl first) else first)
      in if (\<exists>t. lastTask = Some t \<and> t \<noteq> [] \<and> stripped = trim t) \<or> h1_test first
         then js ''> '' @ stripped @ rest
         else raw) \<and>
   (h1_test s \<longleftrightarrow> (\<exists>c r. s = HASH # c # r \<and> is_white_space c))"
proof -
  have len: "length (split_unit LF raw) \<noteq> 0"
    using split_unit_not_Nil [of LF raw] by simp
  have upd: "join_unit LF ((split_unit LF raw)[0 := x]) = x @ dropWhile (\<lambda>c. c \<noteq> LF) raw" for x
    using split_unit_not_Nil [of LF raw] by (simp add: update_first join_replace_first)
  have cond: "(truthy_opt lastTask \<and> Some u = map_option trim lastTask) \<longleftrightarrow>
      (\<exists>t. lastTask = Some t \<and> t \<noteq> [] \<and> u = trim t)" for u
    by (cases lastTask) (auto simp: truthy_opt_def truthy_def)
  have "toRenderableMarkdown lastTask raw =
     (let first = takeWhile (\<lambda>c. c \<noteq> LF) raw;
          rest = dropWhile (\<lambda>c. c \<noteq> LF) raw;
          stripped = trim (h1_replace first)
      in if (\<exists>t. lastTask = Some t \<and> t \<noteq> [] \<and> stripped = trim t) \<or> h1_test first
         then js ''> '' @ stripped @ rest
         else raw)"
    unfolding toRenderableMarkdown_def Let_def
    by (simp only: len upd cond hd_split_unit if_False) auto
  then show ?thesis
    by (simp only: h1_replace_def h1_test_iff [of s])
qed

theorem toRenderableMarkdown_demotes_first_line_witness:
  "toRenderableMarkdown (Some (js ''sum''))
     (js ''# Title  '' @ [LF] @ js ''body'') = js ''> Title'' @ [LF] @ js ''body'' \<and>
   toRenderableMarkdown (Some (js ''sum'')) (js '' sum '' @ [LF] @ js ''body'') =
     js ''> sum'' @ [LF] @ js ''body'' \<and>
   toRenderableMarkdown (Some (js ''sum'')) (js ''#Title'' @ [LF] @ js ''body'') =
     js ''#Title'' @ [LF] @ js ''body''"
  using toRenderableMarkdown_demotes_first_line
      [of "Some (js ''sum'')" "js ''# Title  '' @ [LF] @ js ''body''" "[]"]
    toRenderableMarkdown_demotes_first_line
      [of "Some (js ''sum'')" "js '' sum '' @ [LF] @ js ''body''" "[]"]
    toRenderableMarkdown_demotes_first_line
      [of "Some (js ''sum'')" "js ''#Title'' @ [LF] @ js ''body''" "[]"]
  by (simp add: h1_test_def trim_def is_white_space_def js_def HASH_def LF_def)

text \<open>
  With the prefix \<open>"# "\<close> read literally the claim fails on a heading whose hash is
  followed by a tab: that first line does not start with a hash and a space and is not
  the task, yet the code demotes it.
\<close>

theorem toRenderableMarkdown_tab_heading_counterexample:
  "toRenderableMarkdown (Some (js ''sum'')) (HASH # 0x09 # js ''Title'') = js ''> Title'' \<and>
   literal_prefix_toRenderableMarkdown (Some (js ''sum'')) (HASH # 0x09 # js ''Title'') =
     HASH # 0x09 # js ''Title'' \<and>
   \<not> prefix (js ''# '') (HASH # 0x09 # js ''Title'') \<and>
   trim (HASH # 0x09 # js ''Title'') \<noteq> trim (js ''sum'')"
  by (simp add: toRenderableMarkdown_def literal_prefix_toRenderableMarkdown_def h1_test_def
      h1_replace_def trim_def is_white_space_def js_def HASH_def LF_def truthy_opt_def
      truthy_def)

section \<open>The list view\<close>

text \<open>
  Claim C3. The summary of an agent definition is the record of exactly the six fields
  \<open>agent_id\<close>, \<open>name\<close>, \<open>description\<close>, \<open>tools\<close>, \<open>created_at\<close> and \<open>is_composite\<close>, each
  equal to the definition's field, with \<open>tools\<close> the list of the names of the
  definition's tool configurations; the prompt, the sub-agents and the descriptions and
  parameter schemas of the tools do not reach it.
\<close>

theorem summary_projection:
  "to_summary d =
     \<lparr>AgentSummary.agent_id = AgentDefinition.agent_id d,
      AgentSummary.name = AgentDefinition.name d,
      AgentSummary.description = AgentDefinition.description d,
      AgentSummary.tools = map ToolConfig.name (AgentDefinition.tools d),
      AgentSummary.created_at = AgentDefinition.created_at d,
      AgentSummary.is_composite = AgentDefinition.is_composite d\<rparr> \<and>
   AgentSummary.agent_id (to_summary d) = AgentDefinition.agent_id d \<and>
   AgentSummary.name (to_summary d) = AgentDefinition.name d \<and>
   AgentSummary.description (to_summary d) = AgentDefinition.description d \<and>
   AgentSummary.tools (to_summary d) = map ToolConfig.name (AgentDefinition.tools d) \<and>
   length (AgentSummary.tools (to_summary d)) = length (AgentDefinition.tools d) \<and>
   AgentSummary.created_at (to_summary d) = AgentDefinition.created_at d \<and>
   AgentSummary.is_composite (to_summary d) = AgentDefinition.is_composite d \<and>
   to_summary (d\<lparr>prompt := p, sub_agents := sa\<rparr>) = to_summary d \<and>
   to_summary (d\<lparr>AgentDefinition.tools :=
       map (\<lambda>t. t\<lparr>ToolConfig.description := ds t, parameters := ps t\<rparr>)
         (AgentDefinition.tools d)\<rparr>) = to_summary d"
  by (simp add: to_summary_def comp_def)

section \<open>The task runner's traces\<close>

lemma execute_calls_acc:
  "execute_calls E agent calls traces = traces @ execute_calls E agent calls []"
proof (induction calls arbitrary: traces)
  case Nil
  show ?case by simp
next
  case (Cons c calls)
  obtain t inp where c: "c = (t, inp)" by (cases c)
  show ?case
    unfolding c execute_calls.simps
    by (subst Cons.IH, subst (2) Cons.IH) simp
qed

lemma execute_calls_map:
  "execute_calls E agent calls [] =
     map (\<lambda>(t, inp). trace_of t inp (invoke E agent t inp)) calls"
proof (induction calls)
  case Nil
  show ?case by simp
next
  case (Cons c calls)
  obtain t inp where c: "c = (t, inp)" by (cases c)
  show ?case
    unfolding c execute_calls.simps
    by (subst execute_calls_acc) (simp add: Cons.IH)
qed

lemma trace_of_call: "tool (trace_of t inp r) = t \<and> input (trace_of t inp r) = inp"
  by (cases r) (simp_all add: trace_of_def)

lemma execute_calls_calls:
  "map (\<lambda>tr. (tool tr, input tr)) (execute_calls E agent calls []) = calls"
  by (induction calls) (auto simp: execute_calls_map trace_of_call)

lemma fallback_traces_calls:
  "map (\<lambda>tr. (tool tr, input tr)) (fallback_traces E task_text) =
     (case detect_arithmetic E task_text of None \<Rightarrow> [] | Some e \<Rightarrow> [(calculator, e)])"
  by (simp add: fallback_traces_def trace_of_call split: option.splits)

lemma traces_are_attempts:
  "map (\<lambda>tr. (tool tr, input tr)) (TaskRunner_traces E agent task_text) =
     invocation_attempts E agent task_text"
  by (simp add: TaskRunner_traces_def invocation_attempts_def fallback_traces_calls
      execute_calls_calls split: option.splits plan.splits)


lemma invoke_planner_update [simp]: "invoke (E\<lparr>planner := p\<rparr>) = invoke E"
  by (intro ext) (simp add: invoke_def)

lemma execute_calls_planner_update [simp]:
  "execute_calls (E\<lparr>planner := p\<rparr>) agent calls [] = execute_calls E agent calls []"
  by (simp add: execute_calls_map)

lemma fallback_traces_planner_update [simp]:
  "fallback_traces (E\<lparr>planner := p\<rparr>) = fallback_traces E"
  by (intro ext) (simp add: fallback_traces_def split: option.splits)

lemma trace_of_outcome: "succeeded (trace_of t inp r) = (error (trace_of t inp r) = None)"
  by (cases r) (simp_all add: trace_of_def)

lemma execute_calls_outcomes:
  "list_all (\<lambda>tr. succeeded tr = (error tr = None)) (execute_calls E agent calls [])"
  by (simp add: execute_calls_map list_all_iff trace_of_outcome split: prod.splits)

lemma fallback_traces_outcomes:
  "list_all (\<lambda>tr. succeeded tr = (error tr = None)) (fallback_traces E task_text)"
  by (simp add: fallback_traces_def trace_of_outcome split: option.splits)

lemma traces_outcomes:
  "list_all (\<lambda>tr. succeeded tr = (error tr = None)) (TaskRunner_traces E agent task_text)"
  by (simp add: TaskRunner_traces_def execute_calls_outcomes fallback_traces_outcomes
      split: option.splits plan.splits)

lemma traces_raw_independent:
  "TaskRunner_traces (E\<lparr>planner := \<lambda>a t. map_option (raw_text_update f) (planner E a t)\<rparr>)
     agent task_text = TaskRunner_traces E agent task_text"
  by (simp add: TaskRunner_traces_def split: option.splits plan.splits)

lemma result_raw_independent:
  "TaskRunner_result (E\<lparr>planner := \<lambda>a t. map_option (raw_text_update f) (planner E a t)\<rparr>)
     agent task_text = TaskRunner_result E agent task_text"
  unfolding TaskRunner_result_def traces_raw_independent Let_def
  by (cases "planner E agent task_text") (simp_all split: option.splits plan.splits)

text \<open>
  Claim C4. The traces of the result of \<open>TaskRunner.run\<close> are, one for one and in the
  same order, the invocation attempts of the run, each with the attempt's tool and
  input; a trace is a success without an error or a failure with one. A trace once
  appended is not touched again: executing calls leaves the traces so far as a prefix,
  and the traces of a longer plan extend those of its beginning. The raw response of
  the model is an optional field of the result that nothing else in the result depends
  on: replies that differ only in their raw text give results that differ only there.
\<close>

theorem task_result_traces:
  "map (\<lambda>tr. (tool tr, input tr)) (tool_traces (TaskRunner_run E agent task_text)) =
     invocation_attempts E agent task_text \<and>
   length (tool_traces (TaskRunner_run E agent task_text)) =
     length (invocation_attempts E agent task_text) \<and>
   list_all (\<lambda>tr. succeeded tr = (error tr = None))
     (tool_traces (TaskRunner_run E agent task_text)) \<and>
   execute_calls E agent calls traces = traces @ execute_calls E agent calls [] \<and>
   execute_calls E agent (calls @ later) [] =
     execute_calls E agent calls [] @ execute_calls E agent later [] \<and>
   (TaskRunner_run (E\<lparr>planner := \<lambda>a t. map_option (raw_text_update f) (planner E a t)\<rparr>)
      agent task_text)\<lparr>raw_response := None\<rparr> =
     (TaskRunner_run E agent task_text)\<lparr>raw_response := None\<rparr> \<and>
   raw_response (TaskRunner_run E agent task_text) =
     (if AgentDefinition.tools agent = [] then None
      else map_option raw_text (planner E agent task_text))"
proof (intro conjI)
  show "map (\<lambda>tr. (tool tr, input tr)) (tool_traces (TaskRunner_run E agent task_text)) =
     invocation_attempts E agent task_text"
    by (simp add: TaskRunner_run_def traces_are_attempts)
  then have "length (map (\<lambda>tr. (tool tr, input tr))
      (tool_traces (TaskRunner_run E agent task_text))) =
     length (invocation_attempts E agent task_text)"
    by (rule arg_cong)
  then show "length (tool_traces (TaskRunner_run E agent task_text)) =
     length (invocation_attempts E agent task_text)"
    by simp
  show "list_all (\<lambda>tr. succeeded tr = (error tr = None))
     (tool_traces (TaskRunner_run E agent task_text))"
    by (simp add: TaskRunner_run_def traces_outcomes)
  show "execute_calls E agent calls traces = traces @ execute_calls E agent calls []"
    by (rule execute_calls_acc)
  show "execute_calls E agent (calls @ later) [] =
     execute_calls E agent calls [] @ execute_calls E agent later []"
    by (simp add: execute_calls_map)
  show "(TaskRunner_run (E\<lparr>planner := \<lambda>a t. map_option (raw_text_update f) (planner E a t)\<rparr>)
      agent task_text)\<lparr>raw_response := None\<rparr> =
     (TaskRunner_run E agent task_text)\<lparr>raw_response := None\<rparr>"
    by (simp add: TaskRunner_run_def traces_raw_independent result_raw_independent)
  show "raw_response (TaskRunner_run E agent task_text) =
     (if AgentDefinition.tools agent = [] then None
      else map_option raw_text (planner E agent task_text))"
    by (simp add: TaskRunner_run_def)
qed

lemma example_traces:
  "tool_traces (TaskRunner_run example_runner example_agent (js ''go'')) =
     [\<lparr>tool = calculator, input = js ''1+1'', output' = js ''2'', succeeded = True,
        error = None\<rparr>,
      \<lparr>tool = web_search, input = js ''news'', output' = [], succeeded = False,
        error = Some (js ''tool is not available'')\<rparr>]"
  by (simp add: TaskRunner_run_def TaskRunner_traces_def example_runner_def example_agent_def
      example_config_def invoke_def trace_of_def tool_available_def)

theorem task_result_traces_witness:
  "tool_traces (TaskRunner_run example_runner example_agent (js ''go'')) =
     [\<lparr>tool = calculator, input = js ''1+1'', output' = js ''2'', succeeded = True,
        error = None\<rparr>,
      \<lparr>tool = web_search, input = js ''news'', output' = [], succeeded = False,
        error = Some (js ''tool is not available'')\<rparr>] \<and>
   invocation_attempts example_runner example_agent (js ''go'') =
     [(calculator, js ''1+1''), (web_search, js ''news'')] \<and>
   result (TaskRunner_run example_runner example_agent (js ''go'')) = js ''2'' \<and>
   raw_response (TaskRunner_run example_runner example_agent (js ''go'')) = Some (js ''plan'')"
proof -
  have r: "result (TaskRunner_run example_runner example_agent (js ''go'')) = js ''2''"
    by (simp add: TaskRunner_run_def TaskRunner_result_def TaskRunner_traces_def
        example_runner_def example_agent_def example_config_def invoke_def trace_of_def
        tool_available_def fallback_result_def)
  have w: "raw_response (TaskRunner_run example_runner example_agent (js ''go'')) =
      Some (js ''plan'')"
    by (simp add: TaskRunner_run_def example_runner_def example_agent_def)
  from task_result_traces [of example_runner example_agent "js ''go''" "[]" "[]" "[]" id]
  have "map (\<lambda>tr. (tool tr, input tr))
      (tool_traces (TaskRunner_run example_runner example_agent (js ''go''))) =
     invocation_attempts example_runner example_agent (js ''go'')"
    by (rule conjunct1)
  then show ?thesis
    by (simp add: example_traces r w)
qed

section \<open>The sub-agent invariant\<close>

lemma build_definition_ok: "sub_agents_ok (build_definition F requirement composite)"
  by (simp add: sub_agents_ok_def build_definition_def decomposition_def Let_def)

lemma put_agent_ok:
  "sub_agents_ok d \<Longrightarrow> list_all sub_agents_ok ds \<Longrightarrow> list_all sub_agents_ok (put_agent d ds)"
  by (auto simp: put_agent_def list_all_iff)

lemma create_ok:
  "sub_agents_ok d \<Longrightarrow> store_ok s \<Longrightarrow> store_ok (snd (AgentStore_create w d s))"
  by (auto simp: AgentStore_create_def persist_def store_ok_def put_agent_ok
      split: option.splits)

lemma delete_ok: "store_ok s \<Longrightarrow> store_ok (snd (AgentStore_delete w i s))"
  by (auto simp: AgentStore_delete_def persist_def store_ok_def list_all_iff
      split: option.splits)

lemma load_ok: "store_ok s \<Longrightarrow> store_ok (AgentStore_load (snapshot s))"
  by (auto simp: AgentStore_load_def store_ok_def split: option.splits)

lemma serve_ok: "store_ok s \<Longrightarrow> store_ok (serve r s)"
  by (cases r) (simp_all add: AgentFactory_create_def create_ok build_definition_ok delete_ok load_ok)

lemma serve_all_ok: "store_ok s \<Longrightarrow> store_ok (serve_all rs s)"
  by (induction rs arbitrary: s) (simp_all add: serve_ok)

lemma get_ok: "store_ok s \<Longrightarrow> AgentStore_get i s = Inr d \<Longrightarrow> sub_agents_ok d"
  by (auto simp: AgentStore_get_def store_ok_def list_all_iff find_Some_iff
      split: option.splits)

lemma empty_ok: "store_ok (AgentStore_load None)"
  by (simp add: AgentStore_load_def store_ok_def)

lemma example_select:
  "select_tool_configs (example_factory\<lparr>fresh_id := i\<rparr>) r =
     [\<lparr>ToolConfig.name = calculator, ToolConfig.description = js ''calculator'',
       parameters = []\<rparr>]"
  by (simp add: select_tool_configs_def example_factory_def available_tools_def
      tool_available_def tool_registry_names_def parse_tool_name_def map_filter_simps
      config_of_def example_descriptor_def js_def)

lemma example_sub:
  "sub_agent_summary (example_factory\<lparr>fresh_id := i\<rparr>) r =
     \<lparr>SubAgentSummary.agent_id = None, SubAgentSummary.name = r,
      SubAgentSummary.description = r, SubAgentSummary.tools = [calculator]\<rparr>"
proof -
  have "agent_metadata (example_factory\<lparr>fresh_id := i\<rparr>) r cs = (r, r, js ''You are an agent'')"
    for cs
    by (simp add: agent_metadata_def example_factory_def)
  then show ?thesis
    by (simp add: sub_agent_summary_def Let_def example_select)
qed

lemma example_decompose:
  "decompose example_factory r = Some [js ''add'', js ''multiply'']"
  by (simp add: example_factory_def)

lemma example_sub_agents:
  "sub_agents (build_definition (example_factory\<lparr>fresh_id := i\<rparr>) (js ''sums'') True) =
     [\<lparr>SubAgentSummary.agent_id = None, SubAgentSummary.name = js ''add'',
       SubAgentSummary.description = js ''add'', SubAgentSummary.tools = [calculator]\<rparr>,
      \<lparr>SubAgentSummary.agent_id = None, SubAgentSummary.name = js ''multiply'',
       SubAgentSummary.description = js ''multiply'', SubAgentSummary.tools = [calculator]\<rparr>]"
  by (simp add: build_definition_def decomposition_def Let_def example_decompose example_sub)

lemma example_ids:
  "AgentDefinition.agent_id (build_definition (example_factory\<lparr>fresh_id := i\<rparr>) r c) = i"
  by (simp add: build_definition_def Let_def)

lemma example_get:
  "AgentStore_get (js ''a2'') (serve_all example_requests (AgentStore_load None)) =
     Inr (build_definition (example_factory\<lparr>fresh_id := js ''a2''\<rparr>) (js ''sums'') False)"
proof -
  have e: "example_factory = example_factory\<lparr>fresh_id := js ''a1''\<rparr>"
    by (simp add: example_factory_def)
  have w: "write_succeeds (example_factory\<lparr>fresh_id := i\<rparr>)" for i
    by (simp add: example_factory_def)
  have n: "js ''a1'' \<noteq> js ''a2''" "js ''a1'' \<noteq> js ''a3''" "js ''a2'' \<noteq> js ''a3''"
    by (simp_all add: js_def)
  show ?thesis
    unfolding example_requests_def
    apply (subst e)
    apply (simp add: AgentFactory_create_def AgentStore_create_def AgentStore_delete_def
        AgentStore_load_def AgentStore_get_def persist_def put_agent_def w example_ids n
        del: fun_upd_apply)
    done
qed

text \<open>
  Claim C6. A definition satisfies the invariant when it is composite or has no
  sub-agents. Every definition the factory builds satisfies it, a definition built for
  a request that is not composite has no sub-agents, and what \<open>AgentFactory.create\<close>
  returns is such a definition. Every store operation preserves the invariant for the
  in-memory collection and the snapshot, so after any sequence of requests and restarts
  from the empty store every stored definition, and every definition \<open>get\<close> returns,
  satisfies it.
\<close>

theorem sub_agents_only_when_composite:
  "sub_agents_ok d = (AgentDefinition.is_composite d \<or> sub_agents d = []) \<and>
   sub_agents_ok (build_definition F requirement composite) \<and>
   AgentDefinition.is_composite (build_definition F requirement composite) = composite \<and>
   (\<not> composite \<longrightarrow> sub_agents (build_definition F requirement composite) = []) \<and>
   (\<forall>d'. fst (AgentFactory_create F requirement composite s) = Inr d' \<longrightarrow>
      d' = build_definition F requirement composite \<and> sub_agents_ok d') \<and>
   (store_ok s \<longrightarrow> store_ok (serve r s)) \<and>
   store_ok (serve_all rs (AgentStore_load None)) \<and>
   list_all sub_agents_ok (agents (serve_all rs (AgentStore_load None))) \<and>
   (\<forall>i d'. AgentStore_get i (serve_all rs (AgentStore_load None)) = Inr d' \<longrightarrow>
      sub_agents_ok d')"
proof (intro conjI allI impI)
  show "sub_agents_ok d = (AgentDefinition.is_composite d \<or> sub_agents d = [])"
    by (simp add: sub_agents_ok_def)
  show "sub_agents_ok (build_definition F requirement composite)"
    by (rule build_definition_ok)
  show "AgentDefinition.is_composite (build_definition F requirement composite) = composite"
    by (simp add: build_definition_def Let_def)
  show "sub_agents (build_definition F requirement composite) = []" if "\<not> composite"
    using that by (simp add: build_definition_def decomposition_def Let_def)
  have start: "store_ok (serve_all rs (AgentStore_load None))"
    by (rule serve_all_ok) (rule empty_ok)
  show "store_ok (serve_all rs (AgentStore_load None))" by (rule start)
  from start show "list_all sub_agents_ok (agents (serve_all rs (AgentStore_load None)))"
    by (simp add: store_ok_def)
  show "store_ok (serve r s)" if "store_ok s"
    using that by (rule serve_ok)
  show "sub_agents_ok d'" if "AgentStore_get i (serve_all rs (AgentStore_load None)) = Inr d'"
    for i d'
    using start that by (rule get_ok)
next
  fix d'
  assume a: "fst (AgentFactory_create F requirement composite s) = Inr d'"
  then show "d' = build_definition F requirement composite"
    by (auto simp: AgentFactory_create_def AgentStore_create_def split: option.splits)
  then show "sub_agents_ok d'"
    by (simp add: build_definition_ok)
qed

theorem sub_agents_only_when_composite_witness:
  "sub_agents (build_definition example_factory (js ''sums'') True) =
     [\<lparr>SubAgentSummary.agent_id = None, SubAgentSummary.name = js ''add'',
       SubAgentSummary.description = js ''add'', SubAgentSummary.tools = [calculator]\<rparr>,
      \<lparr>SubAgentSummary.agent_id = None, SubAgentSummary.name = js ''multiply'',
       SubAgentSummary.description = js ''multiply'', SubAgentSummary.tools = [calculator]\<rparr>] \<and>
   AgentDefinition.is_composite (build_definition example_factory (js ''sums'') True) \<and>
   sub_agents (build_definition example_factory (js ''sums'') False) = [] \<and>
   AgentStore_get (js ''a2'') (serve_all example_requests (AgentStore_load None)) =
     Inr (build_definition (example_factory\<lparr>fresh_id := js ''a2''\<rparr>) (js ''sums'') False) \<and>
   sub_agents_ok
     (build_definition (example_factory\<lparr>fresh_id := js ''a2''\<rparr>) (js ''sums'') False) \<and>
   store_ok (AgentStore_load None) \<and>
   store_ok (serve (CreateRequest example_factory (js ''sums'') True) (AgentStore_load None))"
proof -
  have e: "example_factory = example_factory\<lparr>fresh_id := js ''a1''\<rparr>"
    by (simp add: example_factory_def)
  note t = sub_agents_only_when_composite
    [of "build_definition example_factory (js ''sums'') True" example_factory "js ''sums''"
        False "AgentStore_load None" "CreateRequest example_factory (js ''sums'') True"
        example_requests]
  note u = sub_agents_only_when_composite
    [of "build_definition example_factory (js ''sums'') True" example_factory "js ''sums''"
        True "AgentStore_load None" "CreateRequest example_factory (js ''sums'') True"
        example_requests]
  have s0: "store_ok (AgentStore_load None)" by (rule empty_ok)
  have 1: "sub_agents (build_definition example_factory (js ''sums'') True) =
     [\<lparr>SubAgentSummary.agent_id = None, SubAgentSummary.name = js ''add'',
       SubAgentSummary.description = js ''add'', SubAgentSummary.tools = [calculator]\<rparr>,
      \<lparr>SubAgentSummary.agent_id = None, SubAgentSummary.name = js ''multiply'',
       SubAgentSummary.description = js ''multiply'', SubAgentSummary.tools = [calculator]\<rparr>]"
    by (subst e) (rule example_sub_agents)
  from t have 2: "sub_agents (build_definition example_factory (js ''sums'') False) = []"
    by simp
  from u have 3: "AgentDefinition.is_composite (build_definition example_factory (js ''sums'') True)"
    by simp
  from t example_get have 4: "sub_agents_ok
     (build_definition (example_factory\<lparr>fresh_id := js ''a2''\<rparr>) (js ''sums'') False)"
    by blast
  from t s0 have 5:
    "store_ok (serve (CreateRequest example_factory (js ''sums'') True) (AgentStore_load None))"
    by blast
  from 1 2 3 4 5 s0 example_get show ?thesis by blast
qed

end
